theory Spec2Isabelle
  imports Complex_Main "HOL-Library.Sublist"
begin

section \<open>utils.ts: configuration and job expansion\<close>

text \<open>
  The tool reads a YAML file with a \<open>_default\<close> page configuration and a \<open>pages\<close> object
  mapping each URL to a partial override. \<open>utils.ts\<close> declares the types and the two
  functions \<open>mergeConfig\<close> and \<open>expandPageJobs\<close>.
\<close>

type_synonym DeviceName = string

datatype WaitUntilOption = Load | Domcontentloaded | Networkidle | Commit

text \<open>
  \<open>PageConfig\<close>. The field \<open>maxScreenshotHeight\<close> is read by \<open>worker.ts\<close>
  (\<open>config.maxScreenshotHeight !== null\<close>); it is a positive number or \<open>null\<close> ("no
  limit"), and \<open>None\<close> stands for \<open>null\<close>. A resolved configuration has every field, so
  a \<open>maxScreenshotHeight\<close> that is \<open>undefined\<close> does not occur. JavaScript numbers that
  hold pixel counts and milliseconds are integers here.
\<close>

record PageConfig =
  fullPage :: bool
  devices :: "DeviceName list"
  timeoutMs :: int
  requiredSelectors :: "string list"
  abortIfFail :: bool
  waitUntil :: WaitUntilOption
  waitFor :: "string list"
  scrollPage :: bool
  maxScreenshotHeight :: "int option"

text \<open>
  \<open>Partial<PageConfig>\<close>: every key may be absent. \<open>None\<close> is an absent key, \<open>Some v\<close> a key
  that is present with value \<open>v\<close>.
\<close>

record PartialPageConfig =
  p_fullPage :: "bool option"
  p_devices :: "DeviceName list option"
  p_timeoutMs :: "int option"
  p_requiredSelectors :: "string list option"
  p_abortIfFail :: "bool option"
  p_waitUntil :: "WaitUntilOption option"
  p_waitFor :: "string list option"
  p_scrollPage :: "bool option"
  p_maxScreenshotHeight :: "int option option"

text \<open>The empty object \<open>{}\<close> of \<open>pageConfig || {}\<close>.\<close>

definition empty_object :: PartialPageConfig where
  "empty_object =
     \<lparr>p_fullPage = None, p_devices = None, p_timeoutMs = None, p_requiredSelectors = None,
      p_abortIfFail = None, p_waitUntil = None, p_waitFor = None, p_scrollPage = None,
      p_maxScreenshotHeight = None\<rparr>"

text \<open>
  \<open>pages\<close> is a \<open>Record<string, Partial<PageConfig>>\<close>; it is kept as the list that
  \<open>Object.entries\<close> enumerates, in that order. A page whose YAML value is empty parses to
  \<open>null\<close>, which is \<open>None\<close> here.
\<close>

record Config =
  default_config :: PageConfig
  pages :: "(string \<times> PartialPageConfig option) list"

record PageJob =
  url :: string
  device :: DeviceName
  config :: PageConfig

text \<open>
  One key of the object spread \<open>{...defaultConfig, ...pageConfig}\<close>: the later object wins
  where it has the key.
\<close>

definition spread :: "'a \<Rightarrow> 'a option \<Rightarrow> 'a" where
  "spread d p = (case p of None \<Rightarrow> d | Some v \<Rightarrow> v)"

definition mergeConfig :: "PageConfig \<Rightarrow> PartialPageConfig \<Rightarrow> PageConfig" where
  "mergeConfig defaultConfig pageConfig =
     \<lparr>fullPage = spread (fullPage defaultConfig) (p_fullPage pageConfig),
      devices = spread (devices defaultConfig) (p_devices pageConfig),
      timeoutMs = spread (timeoutMs defaultConfig) (p_timeoutMs pageConfig),
      requiredSelectors = spread (requiredSelectors defaultConfig) (p_requiredSelectors pageConfig),
      abortIfFail = spread (abortIfFail defaultConfig) (p_abortIfFail pageConfig),
      waitUntil = spread (waitUntil defaultConfig) (p_waitUntil pageConfig),
      waitFor = spread (waitFor defaultConfig) (p_waitFor pageConfig),
      scrollPage = spread (scrollPage defaultConfig) (p_scrollPage pageConfig),
      maxScreenshotHeight =
        spread (maxScreenshotHeight defaultConfig) (p_maxScreenshotHeight pageConfig)\<rparr>"

text \<open>
  The merged configuration of one entry of \<open>pages\<close>:
  \<open>mergeConfig(config._default, pageConfig || {})\<close>.
\<close>

definition resolved :: "PageConfig \<Rightarrow> PartialPageConfig option \<Rightarrow> PageConfig" where
  "resolved dflt pageConfig =
     mergeConfig dflt (case pageConfig of None \<Rightarrow> empty_object | Some p \<Rightarrow> p)"

text \<open>
  \<open>expandPageJobs\<close>: the inner loop pushes one job per device, the outer loop walks the
  entries of \<open>config.pages\<close>. \<open>jobs\<close> is the array being filled.
\<close>

fun push_device_jobs ::
  "string \<Rightarrow> PageConfig \<Rightarrow> DeviceName list \<Rightarrow> PageJob list \<Rightarrow> PageJob list" where
  "push_device_jobs u mergedConfig [] jobs = jobs"
| "push_device_jobs u mergedConfig (d # ds) jobs =
     push_device_jobs u mergedConfig ds
       (jobs @ [\<lparr>url = u, device = d, config = mergedConfig\<rparr>])"

fun expand_entries ::
  "PageConfig \<Rightarrow> (string \<times> PartialPageConfig option) list \<Rightarrow> PageJob list \<Rightarrow> PageJob list" where
  "expand_entries dflt [] jobs = jobs"
| "expand_entries dflt ((u, pageConfig) # entries) jobs =
     (let mergedConfig = resolved dflt pageConfig
      in expand_entries dflt entries
           (push_device_jobs u mergedConfig (devices mergedConfig) jobs))"

definition expandPageJobs :: "Config \<Rightarrow> PageJob list" where
  "expandPageJobs cfg = expand_entries (default_config cfg) (pages cfg) []"

section \<open>Rendering numbers and joining strings\<close>

text \<open>
  Template literals render a non-negative integer in decimal. \<open>str_includes\<close> is
  \<open>String.prototype.includes\<close>, \<open>join\<close> is \<open>Array.prototype.join\<close>.
\<close>

definition digit :: "nat \<Rightarrow> char" where
  "digit d = ''0123456789'' ! d"

function show_nat :: "nat \<Rightarrow> string" where
  "show_nat n = (if n < 10 then [digit n] else show_nat (n div 10) @ [digit (n mod 10)])"
  by pat_completeness auto
termination
  by (relation "measure id") auto

declare show_nat.simps [simp del]

definition show_int :: "int \<Rightarrow> string" where
  "show_int i = (if i < 0 then CHR ''-'' # show_nat (nat (- i)) else show_nat (nat i))"

fun str_includes :: "string \<Rightarrow> string \<Rightarrow> bool" where
  "str_includes [] p = (p = [])"
| "str_includes (c # cs) p = (prefix p (c # cs) \<or> str_includes cs p)"

fun join :: "string \<Rightarrow> string list \<Rightarrow> string" where
  "join sep [] = []"
| "join sep [x] = x"
| "join sep (x # y # ys) = x @ sep @ join sep (y # ys)"

section \<open>worker.ts: what a job meets, and what it does\<close>

text \<open>
  \<open>checkPage\<close> drives a browser. Everything the browser, the page, the image library and
  the clock answer during one job is collected in a record \<open>world\<close>; the calls the job
  makes are logged, in order, in a trace of \<open>effect\<close>s. A call that throws is followed in
  the trace by \<open>Raised\<close> with the thrown value.

  A thrown value is an \<open>Error\<close> with its message, or something that is not an
  \<open>Error\<close> (the \<open>catch\<close> of \<open>checkPage\<close> tells them apart).
\<close>

datatype thrown = Error string | NonError

datatype page_event =
    Console string string
  | PageError string
  | Response nat string
  | RequestFailed string

datatype effect =
    NewContext
  | NewPage
  | Goto string WaitUntilOption int
  | WaitForSelector string
  | ScrollEntirePage
  | WaitForTimeout int
  | QuerySelector string
  | EvaluateDimensions
  | Screenshot string bool
  | JimpRead string
  | CropWrite string int int
  | Unlink string
  | ContextClose
  | Raised thrown

text \<open>
  The answers of the outside world to one job. \<open>events\<close> are the console messages
  (type and text), uncaught page errors, responses (status and URL) and failed requests
  the page emits before the job reads its two observer arrays. \<open>goto_result\<close> is the
  navigation's outcome: thrown, no response object (\<open>None\<close>), or a response with its
  status. \<open>urlSlug\<close>, \<open>deviceSlug\<close> and \<open>formattedDuration\<close> are the values of
  \<open>urlToSlug(url)\<close>, \<open>deviceToSlug(device)\<close> and \<open>formatDuration(navigationTime)\<close>, which
  rest on the platform's URL parser, case mapping and float formatting. \<open>now\<close> is
  \<open>Date.now()\<close> when the temporary file is named. \<open>Context.close()\<close> and
  \<open>waitForTimeout\<close> are taken not to throw. \<open>getDeviceOptions\<close> only chooses the
  viewport of the new context (and warns about an unknown device name); it has no part
  in the result and is left out.
\<close>

record world =
  newContext_result :: "thrown + unit"
  newPage_result :: "thrown + unit"
  events :: "page_event list"
  goto_result :: "thrown + nat option"
  navigationTime :: int
  elapsed :: int
  waitForSelector_result :: "string \<Rightarrow> thrown + unit"
  scroll_result :: "thrown + unit"
  query_result :: "string \<Rightarrow> thrown + bool"
  urlSlug :: string
  deviceSlug :: string
  formattedDuration :: string
  dimensions_result :: "thrown + int"
  screenshot_result :: "string \<Rightarrow> thrown + unit"
  jimp_read_result :: "thrown + unit"
  crop_write_result :: "int \<Rightarrow> thrown + unit"
  unlink_result :: "thrown + unit"
  now :: int

text \<open>
  The local variables of \<open>checkPage\<close> that outlive its \<open>try\<close> block, and the trace.
\<close>

record job_state =
  errors_var :: "string list"
  warnings_var :: "string list"
  screenshot_var :: "string option"
  screenshots_var :: "string list"
  trace :: "effect list"

text \<open>
  A statement either completes with a value or throws; either way it leaves a state.
\<close>

type_synonym 'a io = "job_state \<Rightarrow> (thrown + 'a) \<times> job_state"

definition io_return :: "'a \<Rightarrow> 'a io" where
  "io_return v s = (Inr v, s)"

definition io_bind :: "'a io \<Rightarrow> ('a \<Rightarrow> 'b io) \<Rightarrow> 'b io" where
  "io_bind m k s = (case m s of (Inl x, s') \<Rightarrow> (Inl x, s') | (Inr v, s') \<Rightarrow> k v s')"

definition io_then :: "unit io \<Rightarrow> 'a io \<Rightarrow> 'a io" where
  "io_then m k = io_bind m (\<lambda>_. k)"

fun io_seq :: "unit io list \<Rightarrow> unit io" where
  "io_seq [] = io_return ()"
| "io_seq (m # ms) = io_then m (io_seq ms)"

definition io_catch :: "'a io \<Rightarrow> (thrown \<Rightarrow> 'a io) \<Rightarrow> 'a io" where
  "io_catch m handler s = (case m s of (Inl x, s') \<Rightarrow> handler x s' | (Inr v, s') \<Rightarrow> (Inr v, s'))"

definition call :: "effect \<Rightarrow> thrown + 'a \<Rightarrow> 'a io" where
  "call e outcome s =
     (case outcome of
        Inl x \<Rightarrow> (Inl x, s\<lparr>trace := trace s @ [e, Raised x]\<rparr>)
      | Inr v \<Rightarrow> (Inr v, s\<lparr>trace := trace s @ [e]\<rparr>))"

definition push_error :: "string \<Rightarrow> unit io" where
  "push_error e s = (Inr (), s\<lparr>errors_var := errors_var s @ [e]\<rparr>)"

definition push_warning :: "string \<Rightarrow> unit io" where
  "push_warning e s = (Inr (), s\<lparr>warnings_var := warnings_var s @ [e]\<rparr>)"

definition io_when :: "bool \<Rightarrow> unit io \<Rightarrow> unit io" where
  "io_when b m = (if b then m else io_return ())"

subsection \<open>The observers\<close>

definition genericErrorPatterns :: "string list" where
  "genericErrorPatterns =
     [''Failed to load resource: the server responded with a status of 401'',
      ''Failed to load resource: the server responded with a status of 403'',
      ''Content Security Policy'',
      ''CSP'']"

definition shouldIgnoreConsoleError :: "string \<Rightarrow> bool" where
  "shouldIgnoreConsoleError msg = list_ex (\<lambda>pattern. str_includes msg pattern) genericErrorPatterns"

definition ignorePatterns :: "string list" where
  "ignorePatterns =
     [''google-analytics.com'', ''googletagmanager.com'', ''analytics.google.com'',
      ''doubleclick.net'', ''facebook.com'', ''facebook.net'', ''linkedin.com'',
      ''twitter.com'', ''google.com/ccm'', ''ads.linkedin.com'', ''recaptcha'',
      ''csp.withgoogle.com'']"

definition shouldIgnoreUrl :: "string \<Rightarrow> bool" where
  "shouldIgnoreUrl u = list_ex (\<lambda>pattern. str_includes u pattern) ignorePatterns"

text \<open>The four handlers, run on one event; the pair is (consoleErrors, networkFailures).\<close>

fun observe :: "string list \<times> string list \<Rightarrow> page_event \<Rightarrow> string list \<times> string list" where
  "observe (consoleErrors, networkFailures) (Console ty msg) =
     (if ty = ''error'' \<and> \<not> shouldIgnoreConsoleError msg
      then (consoleErrors @ [msg], networkFailures) else (consoleErrors, networkFailures))"
| "observe (consoleErrors, networkFailures) (PageError msg) =
     (if \<not> shouldIgnoreConsoleError msg
      then (consoleErrors @ [msg], networkFailures) else (consoleErrors, networkFailures))"
| "observe (consoleErrors, networkFailures) (Response status u) =
     (if status \<ge> 400 \<and> \<not> shouldIgnoreUrl u
      then (consoleErrors, networkFailures @ [show_nat status @ '' '' @ u])
      else (consoleErrors, networkFailures))"
| "observe (consoleErrors, networkFailures) (RequestFailed u) =
     (if \<not> shouldIgnoreUrl u
      then (consoleErrors, networkFailures @ [''Failed: '' @ u])
      else (consoleErrors, networkFailures))"

definition consoleErrors :: "world \<Rightarrow> string list" where
  "consoleErrors w = fst (foldl observe ([], []) (events w))"

definition networkFailures :: "world \<Rightarrow> string list" where
  "networkFailures w = snd (foldl observe ([], []) (events w))"

subsection \<open>File names\<close>

definition path_join :: "string \<Rightarrow> string \<Rightarrow> string" where
  "path_join dir name = dir @ ''/'' @ name"

definition single_filename :: "string \<Rightarrow> string \<Rightarrow> string" where
  "single_filename us ds = us @ ''.'' @ ds @ ''.png''"

definition part_filename :: "string \<Rightarrow> string \<Rightarrow> int \<Rightarrow> int \<Rightarrow> string" where
  "part_filename us ds i n =
     us @ ''.'' @ ds @ ''.part'' @ show_int i @ ''of'' @ show_int n @ ''.png''"

definition temp_filename :: "int \<Rightarrow> string" where
  "temp_filename t = ''temp-full-'' @ show_int t @ ''.png''"

subsection \<open>captureMultiPartScreenshots\<close>

text \<open>
  \<open>Math.ceil(a / b)\<close> for integers \<open>a\<close> and \<open>b > 0\<close>. (For \<open>b = 0\<close> JavaScript divides to
  \<open>Infinity\<close>; the configuration's \<open>maxScreenshotHeight\<close> is a positive number, and the
  embedding is meant for those.)
\<close>

definition ceil_div :: "int \<Rightarrow> int \<Rightarrow> int" where
  "ceil_div a b = - ((- a) div b)"

text \<open>
  The \<open>for\<close> loop that crops the full image into parts. \<open>i\<close> is the loop counter,
  \<open>screenshots\<close> the array of file names pushed so far.
\<close>

function crop_loop ::
  "world \<Rightarrow> string \<Rightarrow> string \<Rightarrow> string \<Rightarrow> int \<Rightarrow> int \<Rightarrow> int \<Rightarrow> int \<Rightarrow> string list
     \<Rightarrow> string list io" where
  "crop_loop w us ds outputDir pageHeight partHeight numParts i screenshots s =
     (if i < numParts then
        (let startY = i * partHeight;
             actualHeight = min partHeight (pageHeight - startY);
             filename = part_filename us ds (i + 1) numParts;
             screenshotPath = path_join outputDir filename
         in case call (CropWrite screenshotPath startY actualHeight) (crop_write_result w i) s of
              (Inl x, s') \<Rightarrow> (Inl x, s')
            | (Inr _, s') \<Rightarrow>
                crop_loop w us ds outputDir pageHeight partHeight numParts (i + 1)
                  (screenshots @ [filename]) s')
      else (Inr screenshots, s))"
  by pat_completeness auto
termination
  by (relation "measure (\<lambda>(w, us, ds, outputDir, pageHeight, partHeight, numParts, i, screenshots, s).
        nat (numParts - i))") auto

declare crop_loop.simps [simp del]

definition captureMultiPartScreenshots ::
  "world \<Rightarrow> string \<Rightarrow> string \<Rightarrow> int \<Rightarrow> string \<Rightarrow> string list io" where
  "captureMultiPartScreenshots w us ds maxHeight outputDir =
     io_bind (call EvaluateDimensions (dimensions_result w)) (\<lambda>pageHeight.
       if pageHeight \<le> maxHeight then
         (let filename = single_filename us ds;
              screenshotPath = path_join outputDir filename
          in io_then (call (Screenshot screenshotPath True) (screenshot_result w screenshotPath))
               (io_return [filename]))
       else
         (let numParts = ceil_div pageHeight maxHeight;
              partHeight = ceil_div pageHeight numParts;
              tempFullPath = path_join outputDir (temp_filename (now w))
          in io_then (call (Screenshot tempFullPath True) (screenshot_result w tempFullPath))
            (io_then (call (JimpRead tempFullPath) (jimp_read_result w))
            (io_bind (crop_loop w us ds outputDir pageHeight partHeight numParts 0 [])
               (\<lambda>screenshots.
                  io_then (call (Unlink tempFullPath) (unlink_result w))
                    (io_return screenshots))))))"

subsection \<open>checkPage\<close>

fun waitFor_loop :: "world \<Rightarrow> string list \<Rightarrow> unit io" where
  "waitFor_loop w [] = io_return ()"
| "waitFor_loop w (selector # rest) =
     io_then
       (io_catch (call (WaitForSelector selector) (waitForSelector_result w selector))
          (\<lambda>error. push_warning (''waitFor selector not visible within 30s: '' @ selector)))
       (waitFor_loop w rest)"

fun requiredSelectors_loop :: "world \<Rightarrow> string list \<Rightarrow> unit io" where
  "requiredSelectors_loop w [] = io_return ()"
| "requiredSelectors_loop w (selector # rest) =
     io_then
       (io_bind (call (QuerySelector selector) (query_result w selector))
          (\<lambda>element. io_when (\<not> element) (push_error (''Missing selector: '' @ selector))))
       (requiredSelectors_loop w rest)"

text \<open>
  "Take screenshot(s)": the last statement of the branch for status 200. It assigns the
  local variables \<open>screenshot\<close> and \<open>screenshots\<close>.
\<close>

definition capture :: "world \<Rightarrow> PageConfig \<Rightarrow> string \<Rightarrow> unit io" where
  "capture w cfg outputDir =
     (case (fullPage cfg, maxScreenshotHeight cfg) of
        (True, Some maxHeight) \<Rightarrow>
          io_bind (captureMultiPartScreenshots w (urlSlug w) (deviceSlug w) maxHeight outputDir)
            (\<lambda>shots s.
               (Inr (), s\<lparr>screenshots_var := shots,
                          screenshot_var := (case shots of [] \<Rightarrow> None | f # _ \<Rightarrow> Some f)\<rparr>))
      | _ \<Rightarrow>
          (let filename = single_filename (urlSlug w) (deviceSlug w);
               screenshotPath = path_join outputDir filename
           in io_then
                (call (Screenshot screenshotPath (fullPage cfg)) (screenshot_result w screenshotPath))
                (\<lambda>s. (Inr (), s\<lparr>screenshot_var := Some filename, screenshots_var := [filename]\<rparr>))))"

text \<open>\<open>response?.status() || 'unknown'\<close>: no response, or a status of 0, reads "unknown".\<close>

definition status_text :: "nat option \<Rightarrow> string" where
  "status_text response =
     (case response of None \<Rightarrow> ''unknown''
      | Some status \<Rightarrow> if status = 0 then ''unknown'' else show_nat status)"

text \<open>The branch taken when the status is 200.\<close>

definition post_load :: "world \<Rightarrow> PageConfig \<Rightarrow> string \<Rightarrow> unit io" where
  "post_load w cfg outputDir =
     io_seq
       [io_when (waitFor cfg \<noteq> []) (waitFor_loop w (waitFor cfg)),
        io_when (scrollPage cfg) (call ScrollEntirePage (scroll_result w)),
        call (WaitForTimeout 5000) (Inr ()),
        io_when (consoleErrors w \<noteq> [])
          (push_error (''Console errors: '' @ join ''; '' (consoleErrors w))),
        io_when (networkFailures w \<noteq> [])
          (push_error (''Network failures: '' @ join ''; '' (networkFailures w))),
        requiredSelectors_loop w (requiredSelectors cfg),
        io_when (navigationTime w > 5000)
          (push_warning (''Slow page: '' @ formattedDuration w @ ''s'')),
        capture w cfg outputDir]"

text \<open>The body of the \<open>try\<close> block.\<close>

definition try_block :: "world \<Rightarrow> string \<Rightarrow> PageConfig \<Rightarrow> string \<Rightarrow> unit io" where
  "try_block w u cfg outputDir =
     io_then (call NewContext (newContext_result w))
    (io_then (call NewPage (newPage_result w))
    (io_bind (call (Goto u (waitUntil cfg) (timeoutMs cfg)) (goto_result w)) (\<lambda>response.
     io_then
       (if response = None \<or> response \<noteq> Some 200
        then push_error (''Status '' @ status_text response)
        else post_load w cfg outputDir)
       (call ContextClose (Inr ())))))"

text \<open>The \<open>catch\<close> clause.\<close>

definition catch_clause :: "thrown \<Rightarrow> unit io" where
  "catch_clause error =
     (case error of
        Error message \<Rightarrow>
          if str_includes message ''Timeout'' then push_error ''Timeout exceeded''
          else push_error message
      | NonError \<Rightarrow> push_error ''Unknown error'')"

record PageResult =
  result_url :: string
  result_device :: DeviceName
  success :: bool
  errors :: "string list"
  warnings :: "string list"
  duration :: int
  screenshot :: "string option"
  screenshots :: "string list option"

definition initial_state :: job_state where
  "initial_state =
     \<lparr>errors_var = [], warnings_var = [], screenshot_var = None, screenshots_var = [],
      trace = []\<rparr>"

text \<open>The state in which \<open>checkPage\<close> reaches its \<open>return\<close>.\<close>

definition final_state :: "world \<Rightarrow> string \<Rightarrow> PageConfig \<Rightarrow> string \<Rightarrow> job_state" where
  "final_state w u cfg outputDir =
     snd (io_catch (try_block w u cfg outputDir) catch_clause initial_state)"

text \<open>\<open>checkPage\<close> returns the result; the model hands back the trace of the job with it.\<close>

definition checkPage ::
  "world \<Rightarrow> string \<Rightarrow> DeviceName \<Rightarrow> PageConfig \<Rightarrow> string \<Rightarrow> PageResult \<times> effect list" where
  "checkPage w u dev cfg outputDir =
     (let s = final_state w u cfg outputDir
      in (\<lparr>result_url = u,
           result_device = dev,
           success = (length (errors_var s) = 0),
           errors = errors_var s,
           warnings = warnings_var s,
           duration = elapsed w,
           screenshot = screenshot_var s,
           screenshots = (if length (screenshots_var s) > 1 then Some (screenshots_var s) else None)\<rparr>,
          trace s))"

section \<open>run.ts: the scheduler and the summary\<close>

definition WORKER_CONCURRENCY :: nat where
  "WORKER_CONCURRENCY = 5"

text \<open>
  The variables of the scheduling loop: \<open>results\<close>, \<open>aborted\<close>, and (for the model only)
  the traces of the jobs that were started, in job order.
\<close>

record run_state =
  results_var :: "PageResult list"
  aborted_var :: bool
  launched :: "effect list list"

text \<open>
  The inner loop over \<open>batchResults\<close>, with \<open>batch[j]\<close> beside \<open>batchResults[j]\<close>: push the
  result, and on a failed job whose configuration has \<open>abortIfFail\<close> set the flag and
  \<open>break\<close>.
\<close>

fun scan_batch :: "(PageJob \<times> PageResult) list \<Rightarrow> run_state \<Rightarrow> run_state" where
  "scan_batch [] st = st"
| "scan_batch ((job, result) # rest) st =
     (let st1 = st\<lparr>results_var := results_var st @ [result]\<rparr>
      in if \<not> success result \<and> abortIfFail (config job)
         then st1\<lparr>aborted_var := True\<rparr>
         else scan_batch rest st1)"

text \<open>
  The outer loop. \<open>check n job\<close> is \<open>checkPage\<close> run on the job at position \<open>n\<close> of
  \<open>jobs\<close>: its result and its trace. \<open>Promise.all\<close> starts every job of the batch and
  waits for all of them.
\<close>

function main_loop ::
  "(nat \<Rightarrow> PageJob \<Rightarrow> PageResult \<times> effect list) \<Rightarrow> PageJob list \<Rightarrow> nat \<Rightarrow> run_state
     \<Rightarrow> run_state" where
  "main_loop check jobs i st =
     (if i < length jobs then
        (if aborted_var st then st
         else
           (let batch = take WORKER_CONCURRENCY (drop i jobs);
                outcomes = map (\<lambda>(n, job). check n job) (zip [i ..< i + length batch] batch);
                batchResults = map fst outcomes;
                st1 = st\<lparr>launched := launched st @ map snd outcomes\<rparr>
            in main_loop check jobs (i + WORKER_CONCURRENCY) (scan_batch (zip batch batchResults) st1)))
      else st)"
  by pat_completeness auto
termination
  by (relation "measure (\<lambda>(check, jobs, i, st). length jobs - i)")
     (auto simp: WORKER_CONCURRENCY_def)

declare main_loop.simps [simp del]

text \<open>
  What \<open>yaml.parse\<close> hands to \<open>main\<close>: \<open>_default\<close> and \<open>pages\<close> may be missing. An empty
  \<open>pages\<close> object is present (and truthy).
\<close>

record ParsedYaml =
  yaml_default :: "PageConfig option"
  yaml_pages :: "(string \<times> PartialPageConfig option) list option"

datatype startup_error = ConfigNotFound | InvalidConfigFormat | NoPagesConfigured

record Summary =
  results :: "PageResult list"
  checked :: nat
  passed :: nat
  failed :: nat
  totalScreenshotFiles :: nat
  exit_code :: nat
  jobs_started :: "effect list list"

text \<open>
  One step of the \<open>reduce\<close> that counts screenshot files. An array is truthy; a string is
  truthy when it is not empty.
\<close>

definition count_files :: "PageResult \<Rightarrow> nat" where
  "count_files r =
     (case screenshots r of
        Some shots \<Rightarrow> length shots
      | None \<Rightarrow> (case screenshot r of Some f \<Rightarrow> if f \<noteq> [] then 1 else 0 | None \<Rightarrow> 0))"

definition initial_run_state :: run_state where
  "initial_run_state = \<lparr>results_var = [], aborted_var = False, launched = []\<rparr>"

text \<open>
  \<open>main\<close>, from the existence check of \<open>config.yaml\<close> (\<open>None\<close>: the file is not there) to
  the exit code. Each of the three start-up errors prints its message and exits with
  code 1 before the browser is launched. \<open>worlds n\<close> is what the job at position \<open>n\<close> meets.
  (A file that does not parse to an object makes \<open>main\<close> reject; that path is not part of
  the model.)
\<close>

definition main :: "ParsedYaml option \<Rightarrow> string \<Rightarrow> (nat \<Rightarrow> world) \<Rightarrow> startup_error + Summary" where
  "main configFile outputDir worlds =
     (case configFile of
        None \<Rightarrow> Inl ConfigNotFound
      | Some parsed \<Rightarrow>
          (case (yaml_default parsed, yaml_pages parsed) of
             (Some d, Some ps) \<Rightarrow>
               (let jobs = expandPageJobs \<lparr>default_config = d, pages = ps\<rparr>
                in if length jobs = 0 then Inl NoPagesConfigured
                   else
                     (let st = main_loop
                                 (\<lambda>n job. checkPage (worlds n) (url job) (device job) (config job)
                                    outputDir)
                                 jobs 0 initial_run_state;
                          rs = results_var st;
                          n_passed = length (filter (\<lambda>r. success r) rs);
                          n_failed = length (filter (\<lambda>r. \<not> success r) rs)
                      in Inr \<lparr>results = rs,
                              checked = length rs,
                              passed = n_passed,
                              failed = n_failed,
                              totalScreenshotFiles = foldl (\<lambda>sum r. sum + count_files r) 0 rs,
                              exit_code = (if n_failed > 0 then 1 else 0),
                              jobs_started = launched st\<rparr>))
           | _ \<Rightarrow> Inl InvalidConfigFormat))"

section \<open>Example inputs\<close>

text \<open>A configuration, an override, and a world in which every call succeeds.\<close>

definition example_config :: PageConfig where
  "example_config =
     \<lparr>fullPage = True, devices = [''desktop'', ''mobile''], timeoutMs = 10000,
      requiredSelectors = [''form''], abortIfFail = False, waitUntil = Networkidle,
      waitFor = [], scrollPage = False, maxScreenshotHeight = Some 4\<rparr>"

definition example_override :: PartialPageConfig where
  "example_override = empty_object\<lparr>p_devices := Some [''mobile''], p_abortIfFail := Some True\<rparr>"

definition quiet_world :: world where
  "quiet_world =
     \<lparr>newContext_result = Inr (), newPage_result = Inr (), events = [],
      goto_result = Inr (Some 200), navigationTime = 1200, elapsed = 6500,
      waitForSelector_result = (\<lambda>_. Inr ()), scroll_result = Inr (),
      query_result = (\<lambda>_. Inr True), urlSlug = ''example-com-home'', deviceSlug = ''desktop'',
      formattedDuration = ''1.2'', dimensions_result = Inr 10,
      screenshot_result = (\<lambda>_. Inr ()), jimp_read_result = Inr (),
      crop_write_result = (\<lambda>_. Inr ()), unlink_result = Inr (), now = 42\<rparr>"

definition example_job :: "string \<Rightarrow> bool \<Rightarrow> PageJob" where
  "example_job u abort =
     \<lparr>url = u, device = ''desktop'', config = example_config\<lparr>abortIfFail := abort\<rparr>\<rparr>"

definition example_jobs :: "PageJob list" where
  "example_jobs =
     [example_job ''https://example.com/1'' False, example_job ''https://example.com/2'' False,
      example_job ''https://example.com/3'' True, example_job ''https://example.com/4'' False,
      example_job ''https://example.com/5'' False, example_job ''https://example.com/6'' False]"

text \<open>The third job (position 2) is answered with status 500.\<close>

definition example_worlds :: "nat \<Rightarrow> world" where
  "example_worlds n = (if n = 2 then quiet_world\<lparr>goto_result := Inr (Some 500)\<rparr> else quiet_world)"

definition example_check :: "nat \<Rightarrow> PageJob \<Rightarrow> PageResult \<times> effect list" where
  "example_check n job = checkPage (example_worlds n) (url job) (device job) (config job) ''out''"

definition no_devices_yaml :: ParsedYaml where
  "no_devices_yaml =
     \<lparr>yaml_default = Some example_config,
      yaml_pages = Some [(''https://example.com/'', Some (empty_object\<lparr>p_devices := Some []\<rparr>))]\<rparr>"

definition timeout_world :: world where
  "timeout_world =
     quiet_world\<lparr>goto_result := Inl (Error ''page.goto: Timeout 10000ms exceeded.'')\<rparr>"

text \<open>Writing the second part (loop counter 1) fails.\<close>

definition crop_failure_world :: world where
  "crop_failure_world =
     quiet_world\<lparr>crop_write_result := (\<lambda>i. if i = 1 then Inl (Error ''write failed'') else Inr ())\<rparr>"


text \<open>Two pages: one on the desktop only, one with no height limit on both devices.\<close>

definition example_yaml :: ParsedYaml where
  "example_yaml =
     \<lparr>yaml_default = Some example_config,
      yaml_pages = Some [(''https://example.com/'', Some (empty_object\<lparr>p_devices := Some [''desktop'']\<rparr>)),
                         (''https://example.com/contact'',
                          Some (empty_object\<lparr>p_maxScreenshotHeight := Some None\<rparr>))]\<rparr>"

section \<open>Notions used in the statements and proofs\<close>

text \<open>
  \<open>effects_of m s\<close> are the calls that the statement \<open>m\<close>, started in \<open>s\<close>, adds to the trace.
  \<open>files_after fs es\<close> are the files in the output directory after the calls \<open>es\<close>, when
  \<open>fs\<close> were there before: a screenshot or a cropped part that did not throw writes its
  file, \<open>unlink\<close> removes one.
\<close>

definition effects_of :: "'a io \<Rightarrow> job_state \<Rightarrow> effect list" where
  "effects_of m s = drop (length (trace s)) (trace (snd (m s)))"

definition raised_next :: "effect list \<Rightarrow> bool" where
  "raised_next es = (case es of Raised x # rest \<Rightarrow> True | _ \<Rightarrow> False)"

fun files_after :: "string set \<Rightarrow> effect list \<Rightarrow> string set" where
  "files_after fs [] = fs"
| "files_after fs (e # es) =
     (if raised_next es then files_after fs es
      else case e of
             Screenshot p f \<Rightarrow> files_after (insert p fs) es
           | CropWrite p y h \<Rightarrow> files_after (insert p fs) es
           | Unlink p \<Rightarrow> files_after (fs - {p}) es
           | _ \<Rightarrow> files_after fs es)"

definition not_close :: "effect \<Rightarrow> bool" where
  "not_close e = (e \<noteq> ContextClose)"

definition crop_or_raised :: "effect \<Rightarrow> bool" where
  "crop_or_raised e = (case e of CropWrite p y h \<Rightarrow> True | Raised x \<Rightarrow> True | _ \<Rightarrow> False)"

text \<open>
  \<open>frame R m\<close>: whatever state \<open>m\<close> starts in, the state it leaves is \<open>R\<close>-related to it,
  whether \<open>m\<close> completes or throws.
\<close>

definition frame :: "(job_state \<Rightarrow> job_state \<Rightarrow> bool) \<Rightarrow> 'a io \<Rightarrow> bool" where
  "frame R m = (\<forall>s. R s (snd (m s)))"

definition preorder_on_states :: "(job_state \<Rightarrow> job_state \<Rightarrow> bool) \<Rightarrow> bool" where
  "preorder_on_states R = ((\<forall>s. R s s) \<and> (\<forall>s t v. R s t \<longrightarrow> R t v \<longrightarrow> R s v))"

definition logs_only :: "(effect \<Rightarrow> bool) \<Rightarrow> job_state \<Rightarrow> job_state \<Rightarrow> bool" where
  "logs_only P s s' =
     (screenshot_var s' = screenshot_var s \<and> screenshots_var s' = screenshots_var s \<and>
      (\<exists>es. trace s' = trace s @ es \<and> list_all P es))"

definition appends :: "(effect \<Rightarrow> bool) \<Rightarrow> job_state \<Rightarrow> job_state \<Rightarrow> bool" where
  "appends P s s' = (\<exists>es. trace s' = trace s @ es \<and> list_all P es)"

text \<open>The try block up to, and without, its last statement.\<close>

definition before_close :: "world \<Rightarrow> string \<Rightarrow> PageConfig \<Rightarrow> string \<Rightarrow> unit io" where
  "before_close w u cfg outputDir =
     io_then (call NewPage (newPage_result w))
    (io_bind (call (Goto u (waitUntil cfg) (timeoutMs cfg)) (goto_result w)) (\<lambda>response.
       if response = None \<or> response \<noteq> Some 200
       then push_error (''Status '' @ status_text response)
       else post_load w cfg outputDir))"






text \<open>
  Decimal numerals, read independently of how the code renders them: a digit is one of
  the ten characters, its value is its character code less 48, and a string of digits
  is read from the left.
\<close>

definition is_digit :: "char \<Rightarrow> bool" where
  "is_digit c = (c \<in> set ''0123456789'')"

definition digit_value :: "char \<Rightarrow> nat" where
  "digit_value c = of_char c - 48"

definition read_decimal :: "string \<Rightarrow> nat" where
  "read_decimal cs = foldl (\<lambda>a c. 10 * a + digit_value c) 0 cs"

text \<open>
  The value of one field for a page, in the words of the configuration format: the
  page's own value where the page has an override object and that object has the field,
  else the default's value.
\<close>

definition override_or_default :: "'a \<Rightarrow> ('p \<Rightarrow> 'a option) \<Rightarrow> 'p option \<Rightarrow> 'a" where
  "override_or_default dv field pc =
     (case pc of None \<Rightarrow> dv | Some p \<Rightarrow> (case field p of None \<Rightarrow> dv | Some v \<Rightarrow> v))"




section \<open>The statement combinators\<close>

lemma call_Inr: "call e (Inr v) s = (Inr v, s\<lparr>trace := trace s @ [e]\<rparr>)"
  by (simp add: call_def)

lemma call_Inl: "call e (Inl x) s = (Inl x, s\<lparr>trace := trace s @ [e, Raised x]\<rparr>)"
  by (simp add: call_def)

lemma io_bind_assoc: "io_bind (io_bind m k) h = io_bind m (\<lambda>v. io_bind (k v) h)"
  by (rule ext) (auto simp: io_bind_def split: prod.splits sum.splits)

section \<open>Frame lemmas\<close>

lemma appends_refl: "appends P s s"
  by (simp add: appends_def)

lemma appends_trans:
  assumes "appends P s t" and "appends P t v"
  shows "appends P s v"
proof -
  from assms obtain es1 es2 where
    "trace t = trace s @ es1" "list_all P es1" "trace v = trace t @ es2" "list_all P es2"
    unfolding appends_def by blast
  then have "trace v = trace s @ (es1 @ es2) \<and> list_all P (es1 @ es2)"
    by simp
  then show ?thesis unfolding appends_def by blast
qed

lemma preorder_appends: "preorder_on_states (appends P)"
  unfolding preorder_on_states_def using appends_refl appends_trans by blast

lemma logs_only_appends:
  "logs_only P s s' =
     (screenshot_var s' = screenshot_var s \<and> screenshots_var s' = screenshots_var s \<and>
      appends P s s')"
  by (simp add: logs_only_def appends_def)

lemma preorder_logs_only: "preorder_on_states (logs_only P)"
  unfolding preorder_on_states_def logs_only_appends
  using appends_refl appends_trans by fastforce

lemma frame_weaken: "frame R m \<Longrightarrow> (\<And>s s'. R s s' \<Longrightarrow> R' s s') \<Longrightarrow> frame R' m"
  by (simp add: frame_def)

lemma frame_return: "preorder_on_states R \<Longrightarrow> frame R (io_return v)"
  by (simp add: frame_def io_return_def preorder_on_states_def)

lemma frame_bind:
  assumes "preorder_on_states R" and "frame R m" and "\<And>v. frame R (k v)"
  shows "frame R (io_bind m k)"
  unfolding frame_def
proof
  fix s
  obtain r s' where ms: "m s = (r, s')" by (cases "m s")
  have 1: "R s s'" using assms(2) ms by (auto simp: frame_def dest: spec [of _ s])
  show "R s (snd (io_bind m k s))"
  proof (cases r)
    case (Inl x)
    then show ?thesis using ms 1 by (simp add: io_bind_def)
  next
    case (Inr v)
    have "R s' (snd (k v s'))" using assms(3) by (simp add: frame_def)
    then show ?thesis using Inr ms 1 assms(1)
      by (auto simp: io_bind_def preorder_on_states_def)
  qed
qed

lemma frame_then:
  "preorder_on_states R \<Longrightarrow> frame R m \<Longrightarrow> frame R k \<Longrightarrow> frame R (io_then m k)"
  by (simp add: io_then_def frame_bind)

lemma frame_seq:
  "preorder_on_states R \<Longrightarrow> list_all (frame R) ms \<Longrightarrow> frame R (io_seq ms)"
  by (induction ms) (auto simp: frame_return frame_then)

lemma frame_when: "preorder_on_states R \<Longrightarrow> frame R m \<Longrightarrow> frame R (io_when b m)"
  by (simp add: io_when_def frame_return)

lemma frame_catch:
  assumes "preorder_on_states R" and "frame R m" and "\<And>x. frame R (h x)"
  shows "frame R (io_catch m h)"
  unfolding frame_def
proof
  fix s
  obtain r s' where ms: "m s = (r, s')" by (cases "m s")
  have 1: "R s s'" using assms(2) ms by (auto simp: frame_def dest: spec [of _ s])
  show "R s (snd (io_catch m h s))"
  proof (cases r)
    case (Inr v)
    then show ?thesis using ms 1 by (simp add: io_catch_def)
  next
    case (Inl x)
    have "R s' (snd (h x s'))" using assms(3) by (simp add: frame_def)
    then show ?thesis using Inl ms 1 assms(1)
      by (auto simp: io_catch_def preorder_on_states_def)
  qed
qed

lemma frame_call: "P e \<Longrightarrow> (\<And>x. P (Raised x)) \<Longrightarrow> frame (logs_only P) (call e outcome)"
  by (cases outcome) (auto simp: frame_def logs_only_def call_def)

lemma frame_push_error: "frame (logs_only P) (push_error e)"
  by (simp add: frame_def logs_only_def push_error_def)

lemma frame_push_warning: "frame (logs_only P) (push_warning e)"
  by (simp add: frame_def logs_only_def push_warning_def)

lemma frame_waitFor_loop:
  "(\<And>sel. P (WaitForSelector sel)) \<Longrightarrow> (\<And>x. P (Raised x)) \<Longrightarrow>
   frame (logs_only P) (waitFor_loop w sels)"
  by (induction sels)
     (auto intro!: frame_return frame_then frame_catch frame_call frame_push_warning
        preorder_logs_only)

lemma frame_requiredSelectors_loop:
  "(\<And>sel. P (QuerySelector sel)) \<Longrightarrow> (\<And>x. P (Raised x)) \<Longrightarrow>
   frame (logs_only P) (requiredSelectors_loop w sels)"
  by (induction sels)
     (auto intro!: frame_return frame_then frame_bind frame_when frame_call frame_push_error
        preorder_logs_only)

lemma frame_crop_loop:
  assumes "\<And>p y h. P (CropWrite p y h)" and "\<And>x. P (Raised x)"
  shows "frame (logs_only P) (crop_loop w us ds outputDir pageHeight partHeight numParts i shots)"
  unfolding frame_def
proof
  fix s
  show "logs_only P s
          (snd (crop_loop w us ds outputDir pageHeight partHeight numParts i shots s))"
  proof (induction w us ds outputDir pageHeight partHeight numParts i shots s
           rule: crop_loop.induct)
    case (1 w us ds outputDir pageHeight partHeight numParts i screenshots s)
    show ?case
    proof (cases "i < numParts")
      case False
      then show ?thesis
        by (subst crop_loop.simps) (simp add: logs_only_def)
    next
      case True
      let ?e = "CropWrite (path_join outputDir (part_filename us ds (i + 1) numParts))
                  (i * partHeight) (min partHeight (pageHeight - i * partHeight))"
      show ?thesis
      proof (cases "crop_write_result w i")
        case (Inl x)
        then show ?thesis using True assms
          by (subst crop_loop.simps) (simp add: Let_def call_Inl logs_only_def)
      next
        case (Inr v)
        let ?s' = "s\<lparr>trace := trace s @ [?e]\<rparr>"
        have step: "logs_only P s ?s'" using assms by (simp add: logs_only_def)
        have "logs_only P ?s'
                (snd (crop_loop w us ds outputDir pageHeight partHeight numParts (i + 1)
                   (screenshots @ [part_filename us ds (i + 1) numParts]) ?s'))"
          using "1.IH" [OF True refl refl refl refl] Inr
          by (simp add: call_Inr)
        with step have "logs_only P s
                (snd (crop_loop w us ds outputDir pageHeight partHeight numParts (i + 1)
                   (screenshots @ [part_filename us ds (i + 1) numParts]) ?s'))"
          using preorder_logs_only [of P] unfolding preorder_on_states_def by blast
        then show ?thesis using True Inr
          by (subst crop_loop.simps) (simp add: Let_def call_Inr)
      qed
    qed
  qed
qed


lemma frame_captureMultiPartScreenshots:
  assumes "P EvaluateDimensions" and "\<And>p f. P (Screenshot p f)" and "\<And>p. P (JimpRead p)"
    and "\<And>p y h. P (CropWrite p y h)" and "\<And>p. P (Unlink p)" and "\<And>x. P (Raised x)"
  shows "frame (logs_only P) (captureMultiPartScreenshots w us ds maxHeight outputDir)"
  unfolding captureMultiPartScreenshots_def Let_def
  by (intro frame_bind frame_then frame_call frame_return frame_crop_loop preorder_logs_only
        assms allI impI)
     (auto intro!: frame_bind frame_then frame_call frame_return frame_crop_loop
        preorder_logs_only assms)

lemma frame_capture:
  assumes "P EvaluateDimensions" and "\<And>p f. P (Screenshot p f)" and "\<And>p. P (JimpRead p)"
    and "\<And>p y h. P (CropWrite p y h)" and "\<And>p. P (Unlink p)" and "\<And>x. P (Raised x)"
  shows "frame (appends P) (capture w cfg outputDir)"
proof -
  have multi: "frame (appends P) (captureMultiPartScreenshots w us ds maxHeight outputDir)"
    for us ds maxHeight
    using frame_captureMultiPartScreenshots [of P, OF assms]
    by (rule frame_weaken) (simp add: logs_only_appends)
  have assign: "frame (appends P) (\<lambda>s. (Inr (), s\<lparr>screenshots_var := a, screenshot_var := b\<rparr>))"
    for a b
    by (simp add: frame_def appends_def)
  have assign2: "frame (appends P) (\<lambda>s. (Inr (), s\<lparr>screenshot_var := b, screenshots_var := a\<rparr>))"
    for a b
    by (simp add: frame_def appends_def)
  have shot: "frame (appends P) (call (Screenshot p f) outcome)" for p f outcome
    using frame_call [of P "Screenshot p f" outcome] assms
    by (auto intro: frame_weaken simp: logs_only_appends)
  show ?thesis
    unfolding capture_def Let_def
    by (auto split: prod.splits bool.splits option.splits
          intro!: frame_bind frame_then multi assign assign2 shot preorder_appends)
qed

lemma logs_to_appends: "frame (logs_only P) m \<Longrightarrow> frame (appends P) m"
  by (erule frame_weaken) (simp add: logs_only_appends)

lemma not_close_call: "e \<noteq> ContextClose \<Longrightarrow> frame (appends not_close) (call e outcome)"
  by (rule logs_to_appends, rule frame_call) (simp_all add: not_close_def)

lemma not_close_push_error: "frame (appends not_close) (push_error e)"
  by (rule logs_to_appends, rule frame_push_error)

lemma not_close_push_warning: "frame (appends not_close) (push_warning e)"
  by (rule logs_to_appends, rule frame_push_warning)

lemma not_close_waitFor_loop: "frame (appends not_close) (waitFor_loop w sels)"
  by (rule logs_to_appends, rule frame_waitFor_loop)
     (simp_all add: not_close_def)

lemma not_close_requiredSelectors_loop:
  "frame (appends not_close) (requiredSelectors_loop w sels)"
  by (rule logs_to_appends, rule frame_requiredSelectors_loop) (simp_all add: not_close_def)

lemma not_close_capture: "frame (appends not_close) (capture w cfg outputDir)"
  by (rule frame_capture) (simp_all add: not_close_def)

lemma frame_post_load_not_close: "frame (appends not_close) (post_load w cfg outputDir)"
  unfolding post_load_def
  by (intro frame_seq preorder_appends)
     (simp add: frame_when preorder_appends not_close_call not_close_push_error
        not_close_push_warning not_close_waitFor_loop not_close_requiredSelectors_loop
        not_close_capture)

lemma try_block_before_close:
  "try_block w u cfg outputDir =
     io_then (call NewContext (newContext_result w))
       (io_then (before_close w u cfg outputDir) (call ContextClose (Inr ())))"
  by (simp add: try_block_def before_close_def io_then_def io_bind_assoc)

lemma frame_before_close: "frame (appends not_close) (before_close w u cfg outputDir)"
  unfolding before_close_def
  by (intro frame_then frame_bind preorder_appends)
     (simp_all add: not_close_call not_close_push_error frame_post_load_not_close)

lemma trace_catch_clause: "trace (snd (catch_clause x s)) = trace s"
  by (cases x) (auto simp: catch_clause_def push_error_def)

section \<open>Decimal rendering\<close>

lemma below_ten: "d < 10 \<Longrightarrow> d \<in> {0, 1, 2, 3, 4, 5, 6, 7, 8, 9::nat}"
  by auto

lemma digit_props:
  assumes "d < 10"
  shows "is_digit (digit d)" and "digit_value (digit d) = d"
    and "(digit d = CHR ''0'') = (d = 0)"
  using below_ten [OF assms]
  by (auto simp: digit_def is_digit_def digit_value_def)

lemma digit_of_value: "is_digit c \<Longrightarrow> digit (digit_value c) = c \<and> digit_value c < 10"
  by (auto simp: digit_def is_digit_def digit_value_def)

lemma read_decimal_snoc: "read_decimal (cs @ [c]) = 10 * read_decimal cs + digit_value c"
  by (simp add: read_decimal_def)

lemma show_nat_nonempty: "show_nat n \<noteq> []"
  by (subst show_nat.simps) simp

lemma show_nat_digits: "list_all is_digit (show_nat n)"
proof (induction n rule: show_nat.induct)
  case (1 n)
  show ?case
  proof (cases "n < 10")
    case True
    then show ?thesis by (subst show_nat.simps) (simp add: digit_props)
  next
    case False
    then show ?thesis using 1 by (subst show_nat.simps) (simp add: digit_props)
  qed
qed

lemma read_decimal_show_nat: "read_decimal (show_nat n) = n"
proof (induction n rule: show_nat.induct)
  case (1 n)
  show ?case
  proof (cases "n < 10")
    case True
    then show ?thesis
      by (subst show_nat.simps) (simp add: read_decimal_def digit_props)
  next
    case False
    then show ?thesis using 1
      by (subst show_nat.simps) (simp add: read_decimal_snoc digit_props)
  qed
qed

lemma show_nat_no_leading_zero: "0 < n \<Longrightarrow> hd (show_nat n) \<noteq> CHR ''0''"
proof (induction n rule: show_nat.induct)
  case (1 n)
  show ?case
  proof (cases "n < 10")
    case True
    then show ?thesis using "1.prems" by (subst show_nat.simps) (simp add: digit_props)
  next
    case False
    then have "0 < n div 10" by simp
    then show ?thesis using 1 False
      by (subst show_nat.simps) (simp add: show_nat_nonempty)
  qed
qed

text \<open>A string of digits without a leading zero is the rendering of its value.\<close>

lemma decimal_unique:
  "cs \<noteq> [] \<Longrightarrow> list_all is_digit cs \<Longrightarrow> hd cs \<noteq> CHR ''0'' \<Longrightarrow> show_nat (read_decimal cs) = cs"
proof (induction cs rule: rev_induct)
  case Nil
  then show ?case by simp
next
  case (snoc c cs)
  have c: "digit (digit_value c) = c" "digit_value c < 10"
    using snoc.prems(2) digit_of_value by simp_all
  show ?case
  proof (cases "cs = []")
    case True
    then show ?thesis using c
      by (subst show_nat.simps) (simp add: read_decimal_def)
  next
    case False
    then have ih: "show_nat (read_decimal cs) = cs"
      using snoc by simp
    have "read_decimal cs \<noteq> 0"
    proof
      assume z: "read_decimal cs = 0"
      have "show_nat 0 = ''0''" by code_simp
      with ih z have "cs = ''0''" by simp
      with snoc.prems(3) show False by simp
    qed
    then have big: "\<not> 10 * read_decimal cs + digit_value c < 10" by simp
    have "(10 * read_decimal cs + digit_value c) div 10 = read_decimal cs"
      "(10 * read_decimal cs + digit_value c) mod 10 = digit_value c"
      using c(2) by simp_all
    then show ?thesis
      using big ih c(1)
      by (subst show_nat.simps) (simp add: read_decimal_snoc)
  qed
qed


lemma status_text_decimal:
  "case response of
     None \<Rightarrow> status_text response = ''unknown''
   | Some status \<Rightarrow>
       if status = 0 then status_text response = ''unknown''
       else status_text response \<noteq> [] \<and> list_all is_digit (status_text response) \<and>
            hd (status_text response) \<noteq> CHR ''0'' \<and>
            read_decimal (status_text response) = status"
  by (simp add: status_text_def show_nat_nonempty show_nat_digits show_nat_no_leading_zero
      read_decimal_show_nat split: option.splits)

section \<open>The configuration expander\<close>

lemma push_device_jobs_eq:
  "push_device_jobs u c ds jobs = jobs @ map (\<lambda>d. \<lparr>url = u, device = d, config = c\<rparr>) ds"
  by (induction ds arbitrary: jobs) auto

lemma expand_entries_eq:
  "expand_entries dflt entries jobs =
     jobs @ concat (map (\<lambda>(u, pc). map (\<lambda>d. \<lparr>url = u, device = d, config = resolved dflt pc\<rparr>)
                                     (devices (resolved dflt pc))) entries)"
  by (induction entries arbitrary: jobs) (auto simp: push_device_jobs_eq Let_def)

lemma expandPageJobs_eq:
  "expandPageJobs cfg =
     concat (map (\<lambda>(u, pc). map (\<lambda>d. \<lparr>url = u, device = d,
                                         config = resolved (default_config cfg) pc\<rparr>)
                                (devices (resolved (default_config cfg) pc)))
                 (pages cfg))"
  by (simp add: expandPageJobs_def expand_entries_eq)

lemma expandPageJobs_empty_iff:
  "(expandPageJobs cfg = []) =
     (\<forall>(u, pc) \<in> set (pages cfg). devices (resolved (default_config cfg) pc) = [])"
  by (auto simp: expandPageJobs_eq)

text \<open>
  C7. \<open>mergeConfig D ov\<close> agrees with the default \<open>D\<close> on every field that the override
  \<open>ov\<close> lacks, and on every field that \<open>ov\<close> has it carries the override's value as a
  whole: a list such as \<open>devices\<close> or \<open>requiredSelectors\<close> is replaced, never merged
  element by element.
\<close>

theorem mergeConfig_fieldwise:
  "(p_fullPage ov = None \<longrightarrow> fullPage (mergeConfig D ov) = fullPage D) \<and>
   (\<forall>v. p_fullPage ov = Some v \<longrightarrow> fullPage (mergeConfig D ov) = v) \<and>
   (p_devices ov = None \<longrightarrow> devices (mergeConfig D ov) = devices D) \<and>
   (\<forall>v. p_devices ov = Some v \<longrightarrow> devices (mergeConfig D ov) = v) \<and>
   (p_timeoutMs ov = None \<longrightarrow> timeoutMs (mergeConfig D ov) = timeoutMs D) \<and>
   (\<forall>v. p_timeoutMs ov = Some v \<longrightarrow> timeoutMs (mergeConfig D ov) = v) \<and>
   (p_requiredSelectors ov = None \<longrightarrow>
      requiredSelectors (mergeConfig D ov) = requiredSelectors D) \<and>
   (\<forall>v. p_requiredSelectors ov = Some v \<longrightarrow> requiredSelectors (mergeConfig D ov) = v) \<and>
   (p_abortIfFail ov = None \<longrightarrow> abortIfFail (mergeConfig D ov) = abortIfFail D) \<and>
   (\<forall>v. p_abortIfFail ov = Some v \<longrightarrow> abortIfFail (mergeConfig D ov) = v) \<and>
   (p_waitUntil ov = None \<longrightarrow> waitUntil (mergeConfig D ov) = waitUntil D) \<and>
   (\<forall>v. p_waitUntil ov = Some v \<longrightarrow> waitUntil (mergeConfig D ov) = v) \<and>
   (p_waitFor ov = None \<longrightarrow> waitFor (mergeConfig D ov) = waitFor D) \<and>
   (\<forall>v. p_waitFor ov = Some v \<longrightarrow> waitFor (mergeConfig D ov) = v) \<and>
   (p_scrollPage ov = None \<longrightarrow> scrollPage (mergeConfig D ov) = scrollPage D) \<and>
   (\<forall>v. p_scrollPage ov = Some v \<longrightarrow> scrollPage (mergeConfig D ov) = v) \<and>
   (p_maxScreenshotHeight ov = None \<longrightarrow>
      maxScreenshotHeight (mergeConfig D ov) = maxScreenshotHeight D) \<and>
   (\<forall>v. p_maxScreenshotHeight ov = Some v \<longrightarrow> maxScreenshotHeight (mergeConfig D ov) = v)"
  by (simp add: mergeConfig_def spread_def)

theorem mergeConfig_fieldwise_witness:
  "devices (mergeConfig example_config example_override) = [''mobile''] \<and>
   abortIfFail (mergeConfig example_config example_override) = True \<and>
   requiredSelectors (mergeConfig example_config example_override) = [''form''] \<and>
   maxScreenshotHeight (mergeConfig example_config example_override) = Some 4 \<and>
   fullPage (mergeConfig example_config example_override) = True"
  using mergeConfig_fieldwise [of example_override example_config]
  by (auto simp: example_override_def example_config_def empty_object_def)

lemma resolved_fieldwise:
  "resolved D pc =
     \<lparr>fullPage = override_or_default (fullPage D) p_fullPage pc,
      devices = override_or_default (devices D) p_devices pc,
      timeoutMs = override_or_default (timeoutMs D) p_timeoutMs pc,
      requiredSelectors = override_or_default (requiredSelectors D) p_requiredSelectors pc,
      abortIfFail = override_or_default (abortIfFail D) p_abortIfFail pc,
      waitUntil = override_or_default (waitUntil D) p_waitUntil pc,
      waitFor = override_or_default (waitFor D) p_waitFor pc,
      scrollPage = override_or_default (scrollPage D) p_scrollPage pc,
      maxScreenshotHeight =
        override_or_default (maxScreenshotHeight D) p_maxScreenshotHeight pc\<rparr>"
  by (cases pc)
     (simp_all add: resolved_def mergeConfig_def spread_def override_or_default_def
        empty_object_def split: option.splits)

lemma resolved_devices:
  "devices (resolved D pc) = override_or_default (devices D) p_devices pc"
  by (subst resolved_fieldwise) simp

text \<open>
  C8. \<open>expandPageJobs\<close> yields, page after page in the order of \<open>pages\<close> and, within a
  page, device after device in the order of the page's device list, one job per (URL,
  device) pair. The device list of a page is the override's \<open>devices\<close> where the page
  overrides it, else the default's; each job carries the page's merged configuration,
  every field of which is the override's where present, else the default's. The number
  of jobs is the sum of the lengths of those device lists.
\<close>

theorem expandPageJobs_page_then_device:
  "expandPageJobs cfg =
     concat (map (\<lambda>(u, pc).
                    map (\<lambda>d. \<lparr>url = u, device = d,
                               config =
                                 \<lparr>fullPage = override_or_default (fullPage (default_config cfg)) p_fullPage pc,
                                  devices = override_or_default (devices (default_config cfg)) p_devices pc,
                                  timeoutMs = override_or_default (timeoutMs (default_config cfg)) p_timeoutMs pc,
                                  requiredSelectors =
                                    override_or_default (requiredSelectors (default_config cfg))
                                      p_requiredSelectors pc,
                                  abortIfFail =
                                    override_or_default (abortIfFail (default_config cfg)) p_abortIfFail pc,
                                  waitUntil = override_or_default (waitUntil (default_config cfg)) p_waitUntil pc,
                                  waitFor = override_or_default (waitFor (default_config cfg)) p_waitFor pc,
                                  scrollPage =
                                    override_or_default (scrollPage (default_config cfg)) p_scrollPage pc,
                                  maxScreenshotHeight =
                                    override_or_default (maxScreenshotHeight (default_config cfg))
                                      p_maxScreenshotHeight pc\<rparr>\<rparr>)
                        (override_or_default (devices (default_config cfg)) p_devices pc))
                 (pages cfg))
   \<and> length (expandPageJobs cfg) =
       sum_list (map (\<lambda>(u, pc). length (override_or_default (devices (default_config cfg)) p_devices pc))
                     (pages cfg))"
proof -
  have eq: "expandPageJobs cfg =
     concat (map (\<lambda>(u, pc). map (\<lambda>d. \<lparr>url = u, device = d,
                                         config = resolved (default_config cfg) pc\<rparr>)
                                (devices (resolved (default_config cfg) pc)))
                 (pages cfg))"
    by (rule expandPageJobs_eq)
  have "length (expandPageJobs cfg) =
       sum_list (map (\<lambda>(u, pc). length (devices (resolved (default_config cfg) pc))) (pages cfg))"
    unfolding eq by (simp add: length_concat comp_def case_prod_unfold)
  then have len: "length (expandPageJobs cfg) =
       sum_list (map (\<lambda>(u, pc). length (override_or_default (devices (default_config cfg)) p_devices pc))
                     (pages cfg))"
    by (simp only: resolved_devices)
  from eq have "expandPageJobs cfg =
     concat (map (\<lambda>(u, pc). map (\<lambda>d. \<lparr>url = u, device = d,
                                         config = resolved (default_config cfg) pc\<rparr>)
                                (override_or_default (devices (default_config cfg)) p_devices pc))
                 (pages cfg))"
    by (simp only: resolved_devices)
  then show ?thesis
    using len by (subst (asm) resolved_fieldwise) simp
qed

theorem expandPageJobs_page_then_device_witness:
  "expandPageJobs \<lparr>default_config = example_config,
                   pages = [(''https://example.com/a'', None),
                            (''https://example.com/b'', Some example_override)]\<rparr>
     = [\<lparr>url = ''https://example.com/a'', device = ''desktop'',
         config = \<lparr>fullPage = True, devices = [''desktop'', ''mobile''], timeoutMs = 10000,
                   requiredSelectors = [''form''], abortIfFail = False, waitUntil = Networkidle,
                   waitFor = [], scrollPage = False, maxScreenshotHeight = Some 4\<rparr>\<rparr>,
        \<lparr>url = ''https://example.com/a'', device = ''mobile'',
         config = \<lparr>fullPage = True, devices = [''desktop'', ''mobile''], timeoutMs = 10000,
                   requiredSelectors = [''form''], abortIfFail = False, waitUntil = Networkidle,
                   waitFor = [], scrollPage = False, maxScreenshotHeight = Some 4\<rparr>\<rparr>,
        \<lparr>url = ''https://example.com/b'', device = ''mobile'',
         config = \<lparr>fullPage = True, devices = [''mobile''], timeoutMs = 10000,
                   requiredSelectors = [''form''], abortIfFail = True, waitUntil = Networkidle,
                   waitFor = [], scrollPage = False, maxScreenshotHeight = Some 4\<rparr>\<rparr>]"
  using expandPageJobs_page_then_device
    [of "\<lparr>default_config = example_config,
          pages = [(''https://example.com/a'', None),
                   (''https://example.com/b'', Some example_override)]\<rparr>"]
  by (simp add: override_or_default_def example_config_def example_override_def empty_object_def)

text \<open>
  C9, as the code has it. With \<open>_default\<close> and \<open>pages\<close> present, the run stops with
  "No pages configured" exactly when the expansion yields no job: when \<open>pages\<close> has no
  entry, and also when every page resolves to an empty device list. A page whose
  resolved device list is empty adds no job to the expansion.
\<close>

theorem no_pages_error_iff_no_jobs:
  "(main (Some \<lparr>yaml_default = Some d, yaml_pages = Some ps\<rparr>) outputDir worlds
      = Inl NoPagesConfigured)
     = (\<forall>(u, pc) \<in> set ps. devices (resolved d pc) = [])
   \<and> (devices (resolved d pc0) = [] \<longrightarrow>
        expandPageJobs \<lparr>default_config = d, pages = before @ (u0, pc0) # after\<rparr>
          = expandPageJobs \<lparr>default_config = d, pages = before @ after\<rparr>)"
proof -
  have "(main (Some \<lparr>yaml_default = Some d, yaml_pages = Some ps\<rparr>) outputDir worlds
           = Inl NoPagesConfigured)
        = (expandPageJobs \<lparr>default_config = d, pages = ps\<rparr> = [])"
    by (simp add: main_def Let_def)
  moreover have "(expandPageJobs \<lparr>default_config = d, pages = ps\<rparr> = [])
        = (\<forall>(u, pc) \<in> set ps. devices (resolved d pc) = [])"
    using expandPageJobs_empty_iff [of "\<lparr>default_config = d, pages = ps\<rparr>"] by simp
  moreover have "devices (resolved d pc0) = [] \<longrightarrow>
        expandPageJobs \<lparr>default_config = d, pages = before @ (u0, pc0) # after\<rparr>
          = expandPageJobs \<lparr>default_config = d, pages = before @ after\<rparr>"
    by (simp add: expandPageJobs_eq)
  ultimately show ?thesis by simp
qed

theorem no_pages_error_iff_no_jobs_witness:
  "main (Some \<lparr>yaml_default = Some example_config, yaml_pages = Some []\<rparr>) ''out''
       (\<lambda>n. quiet_world) = Inl NoPagesConfigured
   \<and> main (Some \<lparr>yaml_default = Some example_config,
                 yaml_pages = Some [(''https://example.com/a'', None),
                                    (''https://example.com/b'',
                                     Some (empty_object\<lparr>p_devices := Some []\<rparr>))]\<rparr>) ''out''
       (\<lambda>n. quiet_world) \<noteq> Inl NoPagesConfigured
   \<and> expandPageJobs \<lparr>default_config = example_config,
         pages = [(''https://example.com/a'', None)] @
                 (''https://example.com/b'', Some (empty_object\<lparr>p_devices := Some []\<rparr>)) # []\<rparr>
       = expandPageJobs \<lparr>default_config = example_config,
           pages = [(''https://example.com/a'', None)] @ []\<rparr>"
  using no_pages_error_iff_no_jobs [of example_config "[]" "''out''" "\<lambda>n. quiet_world"]
    no_pages_error_iff_no_jobs [of example_config
      "[(''https://example.com/a'', None),
        (''https://example.com/b'', Some (empty_object\<lparr>p_devices := Some []\<rparr>))]"
      "''out''" "\<lambda>n. quiet_world"
      "Some (empty_object\<lparr>p_devices := Some []\<rparr>)"
      "[(''https://example.com/a'', None)]" "''https://example.com/b''" "[]"]
  by (simp add: resolved_def mergeConfig_def spread_def empty_object_def example_config_def)

text \<open>
  C9, as the specification states it, fails: a \<open>pages\<close> object with one page whose
  devices are overridden by the empty list is not empty, and the run stops with
  "No pages configured".
\<close>

theorem no_devices_counterexample:
  "yaml_pages no_devices_yaml \<noteq> Some []
   \<and> main (Some no_devices_yaml) ''out'' (\<lambda>n. quiet_world) = Inl NoPagesConfigured"
  by (simp add: no_devices_yaml_def main_def expandPageJobs_def resolved_def mergeConfig_def
      spread_def empty_object_def example_config_def Let_def)

section \<open>The scheduler\<close>

lemma scan_batch_abort_at_third:
  assumes "abortIfFail (config J3)" "\<not> success r3"
    and "\<not> (\<not> success r1 \<and> abortIfFail (config J1))"
    and "\<not> (\<not> success r2 \<and> abortIfFail (config J2))"
  shows "scan_batch ((J1, r1) # (J2, r2) # (J3, r3) # rest) st =
         st\<lparr>results_var := results_var st @ [r1, r2, r3], aborted_var := True\<rparr>"
  using assms by (simp add: Let_def)

text \<open>
  C1. Six jobs, the third with \<open>abortIfFail\<close> and failing, the first two not stopping the
  run. All five jobs of the first batch are started and run to their end, the sixth is
  never started; but the results that \<open>main\<close> keeps are those of the first three jobs
  only: the \<open>break\<close> of the inner loop leaves the results of the fourth and fifth job
  unpushed.
\<close>

theorem abort_truncates_batch_results:
  assumes "abortIfFail (config J3)" "\<not> success (fst (check 2 J3))"
    and "\<not> (\<not> success (fst (check 0 J1)) \<and> abortIfFail (config J1))"
    and "\<not> (\<not> success (fst (check 1 J2)) \<and> abortIfFail (config J2))"
  shows "results_var (main_loop check [J1, J2, J3, J4, J5, J6] 0 initial_run_state)
           = [fst (check 0 J1), fst (check 1 J2), fst (check 2 J3)]
         \<and> launched (main_loop check [J1, J2, J3, J4, J5, J6] 0 initial_run_state)
           = [snd (check 0 J1), snd (check 1 J2), snd (check 2 J3), snd (check 3 J4),
              snd (check 4 J5)]"
proof -
  let ?jobs = "[J1, J2, J3, J4, J5, J6]"
  let ?batch = "[J1, J2, J3, J4, J5]"
  let ?outcomes = "[check 0 J1, check 1 J2, check 2 J3, check 3 J4, check 4 J5]"
  let ?st1 = "initial_run_state\<lparr>launched := launched initial_run_state @ map snd ?outcomes\<rparr>"
  let ?st2 = "?st1\<lparr>results_var := results_var ?st1 @ [fst (check 0 J1), fst (check 1 J2), fst (check 2 J3)],
                   aborted_var := True\<rparr>"
  have batch: "take WORKER_CONCURRENCY (drop 0 ?jobs) = ?batch"
    by (simp add: WORKER_CONCURRENCY_def)
  have outcomes: "map (\<lambda>(n, job). check n job) (zip [0 ..< 0 + length ?batch] ?batch) = ?outcomes"
    by (simp add: eval_nat_numeral)
  have scan: "scan_batch (zip ?batch (map fst ?outcomes)) ?st1 = ?st2"
    using scan_batch_abort_at_third [OF assms, of "[(J4, fst (check 3 J4)), (J5, fst (check 4 J5))]" ?st1]
    by simp
  have first: "main_loop check ?jobs 0 initial_run_state = main_loop check ?jobs (0 + WORKER_CONCURRENCY) ?st2"
    by (subst main_loop.simps) (simp only: batch outcomes scan Let_def, simp add: initial_run_state_def)
  have second: "main_loop check ?jobs (0 + WORKER_CONCURRENCY) ?st2 = ?st2"
    by (subst main_loop.simps) (simp add: WORKER_CONCURRENCY_def)
  show ?thesis
    unfolding first second by (simp add: initial_run_state_def)
qed

theorem abort_truncates_batch_results_witness:
  "map result_url (results_var (main_loop example_check example_jobs 0 initial_run_state))
     = [''https://example.com/1'', ''https://example.com/2'', ''https://example.com/3'']
   \<and> length (launched (main_loop example_check example_jobs 0 initial_run_state)) = 5"
proof -
  have third: "\<not> success (fst (example_check 2 (example_job ''https://example.com/3'' True)))"
    by code_simp
  have first: "success (fst (example_check 0 (example_job ''https://example.com/1'' False)))"
    by code_simp
  have second: "success (fst (example_check 1 (example_job ''https://example.com/2'' False)))"
    by code_simp
  have abort: "abortIfFail (config (example_job ''https://example.com/3'' True))"
    by (simp add: example_job_def)
  have urls: "result_url (fst (example_check n job)) = url job" for n job
    by (simp add: example_check_def checkPage_def Let_def)
  show ?thesis
    using abort_truncates_batch_results
      [of "example_job ''https://example.com/3'' True" example_check
          "example_job ''https://example.com/1'' False"
          "example_job ''https://example.com/2'' False"
          "example_job ''https://example.com/4'' False"
          "example_job ''https://example.com/5'' False"
          "example_job ''https://example.com/6'' False",
       OF abort third] first second
    by (simp add: example_jobs_def urls example_job_def)
qed

section \<open>checkPage\<close>

text \<open>
  C3. When the context and the page are created and the navigation completes with no
  response object or with a status other than 200, the result carries exactly one error:
  "Status unknown" when there is no response (or its status is 0), else "Status "
  followed by the status in decimal digits without a leading zero. It carries no warning
  and no screenshot, and the job makes no further call but to close the context: no
  selector is waited for or queried, the observers' findings are not reported, nothing is
  captured.
\<close>

theorem bad_status_skips_checks:
  assumes "newContext_result w = Inr ()" and "newPage_result w = Inr ()"
    and "goto_result w = Inr response" and "response \<noteq> Some 200"
  shows "\<exists>code.
           checkPage w u dev cfg outputDir =
             (\<lparr>result_url = u, result_device = dev, success = False,
               errors = [''Status '' @ code], warnings = [],
               duration = elapsed w, screenshot = None, screenshots = None\<rparr>,
              [NewContext, NewPage, Goto u (waitUntil cfg) (timeoutMs cfg), ContextClose])
           \<and> (case response of
                 None \<Rightarrow> code = ''unknown''
               | Some status \<Rightarrow>
                   if status = 0 then code = ''unknown''
                   else code \<noteq> [] \<and> list_all is_digit code \<and> hd code \<noteq> CHR ''0'' \<and>
                        read_decimal code = status)"
proof -
  let ?s3 = "initial_state\<lparr>trace := [NewContext, NewPage, Goto u (waitUntil cfg) (timeoutMs cfg)]\<rparr>"
  let ?s4 = "?s3\<lparr>errors_var := [''Status '' @ status_text response]\<rparr>"
  let ?s5 = "?s4\<lparr>trace := [NewContext, NewPage, Goto u (waitUntil cfg) (timeoutMs cfg), ContextClose]\<rparr>"
  have "try_block w u cfg outputDir initial_state = (Inr (), ?s5)"
    using assms
    by (simp add: try_block_def io_then_def io_bind_def call_def push_error_def initial_state_def)
  then have "final_state w u cfg outputDir = ?s5"
    by (simp add: final_state_def io_catch_def)
  then have "checkPage w u dev cfg outputDir =
             (\<lparr>result_url = u, result_device = dev, success = False,
               errors = [''Status '' @ status_text response], warnings = [],
               duration = elapsed w, screenshot = None, screenshots = None\<rparr>,
              [NewContext, NewPage, Goto u (waitUntil cfg) (timeoutMs cfg), ContextClose])"
    by (simp add: checkPage_def initial_state_def)
  with status_text_decimal [of response] show ?thesis by blast
qed

theorem bad_status_skips_checks_witness:
  "checkPage (quiet_world\<lparr>goto_result := Inr (Some 404)\<rparr>) ''https://example.com/'' ''desktop''
     example_config ''out''
   = (\<lparr>result_url = ''https://example.com/'', result_device = ''desktop'', success = False,
       errors = [''Status 404''], warnings = [], duration = 6500, screenshot = None,
       screenshots = None\<rparr>,
      [NewContext, NewPage, Goto ''https://example.com/'' Networkidle 10000, ContextClose])
   \<and> checkPage (quiet_world\<lparr>goto_result := Inr None\<rparr>) ''https://example.com/'' ''desktop''
     example_config ''out''
   = (\<lparr>result_url = ''https://example.com/'', result_device = ''desktop'', success = False,
       errors = [''Status unknown''], warnings = [], duration = 6500, screenshot = None,
       screenshots = None\<rparr>,
      [NewContext, NewPage, Goto ''https://example.com/'' Networkidle 10000, ContextClose])"
proof -
  let ?w = "quiet_world\<lparr>goto_result := Inr (Some 404)\<rparr>"
  let ?v = "quiet_world\<lparr>goto_result := Inr None\<rparr>"
  have w: "newContext_result ?w = Inr ()" "newPage_result ?w = Inr ()"
    "goto_result ?w = Inr (Some 404)" "Some (404::nat) \<noteq> Some 200"
    by (simp_all add: quiet_world_def)
  have v: "newContext_result ?v = Inr ()" "newPage_result ?v = Inr ()"
    "goto_result ?v = Inr None" "(None::nat option) \<noteq> Some 200"
    by (simp_all add: quiet_world_def)
  have cfg: "waitUntil example_config = Networkidle" "timeoutMs example_config = 10000"
    by (simp_all add: example_config_def)
  have el: "elapsed ?w = 6500" "elapsed ?v = 6500"
    by (simp_all add: quiet_world_def)
  have four: "show_nat 404 = ''404''" by code_simp
  from bad_status_skips_checks [OF w, of "''https://example.com/''" "''desktop''" example_config "''out''"]
  obtain code where code:
    "checkPage ?w ''https://example.com/'' ''desktop'' example_config ''out'' =
       (\<lparr>result_url = ''https://example.com/'', result_device = ''desktop'', success = False,
         errors = [''Status '' @ code], warnings = [], duration = 6500, screenshot = None,
         screenshots = None\<rparr>,
        [NewContext, NewPage, Goto ''https://example.com/'' Networkidle 10000, ContextClose])"
    "code \<noteq> []" "list_all is_digit code" "hd code \<noteq> CHR ''0''" "read_decimal code = 404"
    unfolding cfg el by auto
  have "code = ''404''"
    using decimal_unique [OF code(2-4)] code(5) four by simp
  with code(1) have first: "checkPage ?w ''https://example.com/'' ''desktop'' example_config ''out'' =
       (\<lparr>result_url = ''https://example.com/'', result_device = ''desktop'', success = False,
         errors = [''Status 404''], warnings = [], duration = 6500, screenshot = None,
         screenshots = None\<rparr>,
        [NewContext, NewPage, Goto ''https://example.com/'' Networkidle 10000, ContextClose])"
    by simp
  from bad_status_skips_checks [OF v, of "''https://example.com/''" "''desktop''" example_config "''out''"]
  have second: "checkPage ?v ''https://example.com/'' ''desktop'' example_config ''out'' =
       (\<lparr>result_url = ''https://example.com/'', result_device = ''desktop'', success = False,
         errors = [''Status unknown''], warnings = [], duration = 6500, screenshot = None,
         screenshots = None\<rparr>,
        [NewContext, NewPage, Goto ''https://example.com/'' Networkidle 10000, ContextClose])"
    unfolding cfg el by auto
  from first second show ?thesis by simp
qed

text \<open>
  C4. The context is closed by the last statement of the \<open>try\<close> block, and nowhere else:
  whenever something throws after the context was created (a navigation timeout, a
  failing capture, a failing query), the job returns its result with the context still
  open.
\<close>

theorem context_left_open_when_try_block_throws:
  assumes "newContext_result w = Inr ()"
    and "fst (try_block w u cfg outputDir initial_state) = Inl x"
  shows "NewContext \<in> set (snd (checkPage w u dev cfg outputDir))
         \<and> ContextClose \<notin> set (snd (checkPage w u dev cfg outputDir))"
proof -
  let ?s1 = "initial_state\<lparr>trace := [NewContext]\<rparr>"
  obtain r s2 where b: "before_close w u cfg outputDir ?s1 = (r, s2)"
    by (cases "before_close w u cfg outputDir ?s1")
  have "appends not_close ?s1 s2"
    using frame_before_close [of w u cfg outputDir] b
    by (auto simp: frame_def dest: spec [of _ ?s1])
  then obtain es where es: "trace s2 = [NewContext] @ es" "list_all not_close es"
    by (auto simp: appends_def)
  have raised: "r = Inl x"
    using assms b
    by (cases r) (auto simp: try_block_before_close io_then_def io_bind_def call_def
        initial_state_def)
  have "try_block w u cfg outputDir initial_state = (Inl x, s2)"
    using assms(1) b raised
    by (simp add: try_block_before_close io_then_def io_bind_def call_def initial_state_def)
  then have "trace (final_state w u cfg outputDir) = NewContext # es"
    using es by (simp add: final_state_def io_catch_def trace_catch_clause)
  then have "snd (checkPage w u dev cfg outputDir) = NewContext # es"
    by (simp add: checkPage_def Let_def)
  then show ?thesis
    using es(2) by (auto simp: list_all_iff not_close_def)
qed

theorem context_left_open_when_try_block_throws_witness:
  "snd (checkPage timeout_world ''https://example.com/'' ''desktop'' example_config ''out'')
     = [NewContext, NewPage, Goto ''https://example.com/'' Networkidle 10000,
        Raised (Error ''page.goto: Timeout 10000ms exceeded.'')]
   \<and> errors (fst (checkPage timeout_world ''https://example.com/'' ''desktop'' example_config
         ''out'')) = [''Timeout exceeded'']
   \<and> NewContext \<in> set (snd (checkPage timeout_world ''https://example.com/'' ''desktop''
         example_config ''out''))
   \<and> ContextClose \<notin> set (snd (checkPage timeout_world ''https://example.com/'' ''desktop''
         example_config ''out''))"
proof -
  have created: "newContext_result timeout_world = Inr ()"
    by (simp add: timeout_world_def quiet_world_def)
  have thrown: "fst (try_block timeout_world ''https://example.com/'' example_config ''out''
                  initial_state) = Inl (Error ''page.goto: Timeout 10000ms exceeded.'')"
    by code_simp
  have run: "snd (checkPage timeout_world ''https://example.com/'' ''desktop'' example_config ''out'')
     = [NewContext, NewPage, Goto ''https://example.com/'' Networkidle 10000,
        Raised (Error ''page.goto: Timeout 10000ms exceeded.'')]"
    by code_simp
  have err: "errors (fst (checkPage timeout_world ''https://example.com/'' ''desktop'' example_config
         ''out'')) = [''Timeout exceeded'']"
    by code_simp
  show ?thesis
    using context_left_open_when_try_block_throws [OF created thrown, of "''desktop''"] run err
    by simp
qed

section \<open>The screenshot partitioner\<close>

lemma effects_of_append: "trace (snd (m s)) = trace s @ es \<Longrightarrow> effects_of m s = es"
  by (simp add: effects_of_def)

lemma files_after_keeps:
  "p \<in> fs \<Longrightarrow> Unlink p \<notin> set es \<Longrightarrow> p \<in> files_after fs es"
proof (induction es arbitrary: fs)
  case Nil
  then show ?case by simp
next
  case (Cons e es)
  from Cons.prems have rest: "Unlink p \<notin> set es" and e: "e \<noteq> Unlink p" by auto
  show ?case
  proof (cases "raised_next es")
    case True
    then show ?thesis using Cons.IH [OF Cons.prems(1) rest] by simp
  next
    case False
    have "p \<in> files_after fs' es" if "p \<in> fs'" for fs'
      using Cons.IH [OF that rest] .
    then show ?thesis
      using False e Cons.prems(1) by (cases e) simp_all
  qed
qed

lemma crop_or_raised_no_unlink: "list_all crop_or_raised es \<Longrightarrow> Unlink p \<notin> set es"
  by (auto simp: list_all_iff crop_or_raised_def split: effect.splits)

lemma single_not_part: "single_filename us ds \<noteq> part_filename us ds i n"
  by (simp add: single_filename_def part_filename_def)














text \<open>
  C5. The temporary full-page image is unlinked by the statement after the loop, and
  nowhere else: when reading the image or writing a part throws, the temporary file is
  still in the output directory when \<open>captureMultiPartScreenshots\<close> is left.
\<close>

theorem temp_file_left_when_cropping_throws:
  assumes "dimensions_result w = Inr pageHeight" and "maxHeight < pageHeight"
    and "screenshot_result w (path_join outputDir (temp_filename (now w))) = Inr ()"
    and "unlink_result w = Inr ()"
    and "fst (captureMultiPartScreenshots w us ds maxHeight outputDir s) = Inl x"
  shows "path_join outputDir (temp_filename (now w))
           \<in> files_after {} (effects_of (captureMultiPartScreenshots w us ds maxHeight outputDir) s)"
proof -
  let ?tmp = "path_join outputDir (temp_filename (now w))"
  let ?run = "captureMultiPartScreenshots w us ds maxHeight outputDir"
  let ?n = "ceil_div pageHeight maxHeight"
  let ?s2 = "s\<lparr>trace := trace s @ [EvaluateDimensions, Screenshot ?tmp True]\<rparr>"
  show ?thesis
  proof (cases "jimp_read_result w")
    case (Inl y)
    have "?run s = (Inl y, s\<lparr>trace := trace s @ [EvaluateDimensions, Screenshot ?tmp True,
                                   JimpRead ?tmp, Raised y]\<rparr>)"
      using assms(1-3) Inl
      by (simp add: captureMultiPartScreenshots_def io_bind_def io_then_def call_def Let_def)
    then have "effects_of ?run s = [EvaluateDimensions, Screenshot ?tmp True, JimpRead ?tmp, Raised y]"
      by (simp add: effects_of_def)
    then show ?thesis by (simp add: raised_next_def)
  next
    case (Inr v)
    let ?s3 = "s\<lparr>trace := trace s @ [EvaluateDimensions, Screenshot ?tmp True, JimpRead ?tmp]\<rparr>"
    let ?loop = "crop_loop w us ds outputDir pageHeight (ceil_div pageHeight ?n) ?n 0 []"
    obtain r s4 where loop: "?loop ?s3 = (r, s4)"
      by (cases "?loop ?s3")
    have "logs_only crop_or_raised ?s3 s4"
      using frame_crop_loop [of crop_or_raised w us ds outputDir pageHeight
          "ceil_div pageHeight ?n" ?n 0 "[]"] loop
      by (auto simp: frame_def crop_or_raised_def dest: spec [of _ ?s3])
    then obtain es where es: "trace s4 = trace ?s3 @ es" "list_all crop_or_raised es"
      by (auto simp: logs_only_def)
    have run: "?run s = (case r of Inl y \<Rightarrow> (Inl y, s4)
                | Inr shots \<Rightarrow> (Inr shots, s4\<lparr>trace := trace s4 @ [Unlink ?tmp]\<rparr>))"
      using assms(1-4) Inr loop
      by (simp add: captureMultiPartScreenshots_def io_bind_def io_then_def call_def Let_def
          io_return_def split: sum.splits)
    have "\<exists>y. r = Inl y"
      using assms(5) run by (cases r) auto
    then have "trace (snd (?run s)) = trace s @ ([EvaluateDimensions, Screenshot ?tmp True, JimpRead ?tmp] @ es)"
      using run es by auto
    then have eff: "effects_of ?run s = [EvaluateDimensions, Screenshot ?tmp True, JimpRead ?tmp] @ es"
      by (rule effects_of_append)
    have "?tmp \<in> files_after {?tmp} es"
      using files_after_keeps [of ?tmp "{?tmp}" es] crop_or_raised_no_unlink [OF es(2)] by simp
    then show ?thesis
      unfolding eff by (simp add: raised_next_def)
  qed
qed

theorem temp_file_left_when_cropping_throws_witness:
  "fst (captureMultiPartScreenshots crop_failure_world ''a'' ''b'' 4 ''out'' initial_state)
     = Inl (Error ''write failed'')
   \<and> ''out/temp-full-42.png''
       \<in> files_after {} (effects_of (captureMultiPartScreenshots crop_failure_world ''a'' ''b'' 4
                                      ''out'') initial_state)"
proof -
  have thrown: "fst (captureMultiPartScreenshots crop_failure_world ''a'' ''b'' 4 ''out'' initial_state)
     = Inl (Error ''write failed'')"
    by code_simp
  have tmp: "path_join ''out'' (temp_filename (now crop_failure_world)) = ''out/temp-full-42.png''"
    by code_simp
  have w: "dimensions_result crop_failure_world = Inr 10" "(4::int) < 10"
    "screenshot_result crop_failure_world (path_join ''out'' (temp_filename (now crop_failure_world)))
       = Inr ()"
    "unlink_result crop_failure_world = Inr ()"
    by (simp_all add: crop_failure_world_def quiet_world_def)
  from temp_file_left_when_cropping_throws [OF w thrown]
  show ?thesis
    using thrown by (simp add: tmp)
qed

text \<open>
  C6. When \<open>fullPage\<close> is false, or \<open>maxScreenshotHeight\<close> is \<open>null\<close>, or the measured
  height is at most \<open>maxScreenshotHeight\<close>, a capture that completes leaves exactly one
  file, named \<open>urlSlug.deviceSlug.png\<close>, which is no part name; that name is the value of
  \<open>screenshot\<close> and the only element of \<open>screenshots\<close>.
\<close>

theorem single_capture_below_threshold:
  assumes "\<not> fullPage cfg \<or> maxScreenshotHeight cfg = None \<or>
           (\<exists>maxHeight pageHeight. maxScreenshotHeight cfg = Some maxHeight \<and>
              dimensions_result w = Inr pageHeight \<and> pageHeight \<le> maxHeight)"
    and "fst (capture w cfg outputDir s) = Inr ()"
  shows "screenshots_var (snd (capture w cfg outputDir s))
           = [single_filename (urlSlug w) (deviceSlug w)]
         \<and> screenshot_var (snd (capture w cfg outputDir s))
           = Some (single_filename (urlSlug w) (deviceSlug w))
         \<and> files_after {} (effects_of (capture w cfg outputDir) s)
           = {path_join outputDir (single_filename (urlSlug w) (deviceSlug w))}
         \<and> (\<forall>i n. single_filename (urlSlug w) (deviceSlug w)
                     \<noteq> part_filename (urlSlug w) (deviceSlug w) i n)"
proof -
  let ?f = "single_filename (urlSlug w) (deviceSlug w)"
  let ?p = "path_join outputDir ?f"
  let ?s' = "snd (capture w cfg outputDir s)"
  have fields: "trace ?s' = trace s @ (if fullPage cfg \<and> maxScreenshotHeight cfg \<noteq> None
                               then [EvaluateDimensions, Screenshot ?p True]
                               else [Screenshot ?p (fullPage cfg)])
        \<and> screenshots_var ?s' = [?f] \<and> screenshot_var ?s' = Some ?f"
  proof (cases "fullPage cfg \<and> maxScreenshotHeight cfg \<noteq> None")
    case True
    then obtain maxHeight pageHeight where c:
      "maxScreenshotHeight cfg = Some maxHeight" "dimensions_result w = Inr pageHeight"
      "pageHeight \<le> maxHeight" "fullPage cfg"
      using assms(1) by auto
    have eq: "capture w cfg outputDir s =
            (case screenshot_result w ?p of
               Inl y \<Rightarrow> (Inl y, s\<lparr>trace := trace s @ [EvaluateDimensions, Screenshot ?p True, Raised y]\<rparr>)
             | Inr v \<Rightarrow> (Inr (), s\<lparr>trace := trace s @ [EvaluateDimensions, Screenshot ?p True],
                                  screenshots_var := [?f], screenshot_var := Some ?f\<rparr>))"
      using c
      by (simp add: capture_def captureMultiPartScreenshots_def io_bind_def io_then_def call_def
          Let_def io_return_def split: sum.splits)
    show ?thesis
      using assms(2) True unfolding eq by (cases "screenshot_result w ?p") simp_all
  next
    case False
    have eq: "capture w cfg outputDir s =
            (case screenshot_result w ?p of
               Inl y \<Rightarrow> (Inl y, s\<lparr>trace := trace s @ [Screenshot ?p (fullPage cfg), Raised y]\<rparr>)
             | Inr v \<Rightarrow> (Inr (), s\<lparr>trace := trace s @ [Screenshot ?p (fullPage cfg)],
                                  screenshot_var := Some ?f, screenshots_var := [?f]\<rparr>))"
    proof (cases "fullPage cfg")
      case True
      with False have "maxScreenshotHeight cfg = None" by simp
      with True show ?thesis
        by (simp add: capture_def io_bind_def io_then_def call_def Let_def split: sum.splits)
    next
      case False
      then show ?thesis
        by (simp add: capture_def io_bind_def io_then_def call_def Let_def split: sum.splits)
    qed
    show ?thesis
      using assms(2) False unfolding eq by (cases "screenshot_result w ?p") simp_all
  qed
  from fields have "files_after {} (effects_of (capture w cfg outputDir) s) = {?p}"
    by (auto simp: effects_of_def raised_next_def)
  then show ?thesis
    using fields single_not_part by simp
qed

theorem single_capture_below_threshold_witness:
  "screenshots_var (snd (capture quiet_world (example_config\<lparr>maxScreenshotHeight := Some 10\<rparr>)
       ''out'' initial_state)) = [''example-com-home.desktop.png'']
   \<and> files_after {} (effects_of (capture quiet_world
         (example_config\<lparr>maxScreenshotHeight := Some 10\<rparr>) ''out'') initial_state)
       = {''out/example-com-home.desktop.png''}
   \<and> screenshots_var (snd (capture quiet_world (example_config\<lparr>fullPage := False\<rparr>)
       ''out'' initial_state)) = [''example-com-home.desktop.png'']
   \<and> screenshots_var (snd (capture quiet_world (example_config\<lparr>maxScreenshotHeight := None\<rparr>)
       ''out'' initial_state)) = [''example-com-home.desktop.png'']"
proof -
  let ?c1 = "example_config\<lparr>maxScreenshotHeight := Some 10\<rparr>"
  let ?c2 = "example_config\<lparr>fullPage := False\<rparr>"
  let ?c3 = "example_config\<lparr>maxScreenshotHeight := None\<rparr>"
  have name: "single_filename (urlSlug quiet_world) (deviceSlug quiet_world)
                = ''example-com-home.desktop.png''"
    by code_simp
  have path: "path_join ''out'' ''example-com-home.desktop.png'' = ''out/example-com-home.desktop.png''"
    by code_simp
  have h1: "\<not> fullPage ?c1 \<or> maxScreenshotHeight ?c1 = None \<or>
           (\<exists>maxHeight pageHeight. maxScreenshotHeight ?c1 = Some maxHeight \<and>
              dimensions_result quiet_world = Inr pageHeight \<and> pageHeight \<le> maxHeight)"
    by (simp add: quiet_world_def)
  have h2: "\<not> fullPage ?c2 \<or> maxScreenshotHeight ?c2 = None \<or>
           (\<exists>maxHeight pageHeight. maxScreenshotHeight ?c2 = Some maxHeight \<and>
              dimensions_result quiet_world = Inr pageHeight \<and> pageHeight \<le> maxHeight)"
    by simp
  have h3: "\<not> fullPage ?c3 \<or> maxScreenshotHeight ?c3 = None \<or>
           (\<exists>maxHeight pageHeight. maxScreenshotHeight ?c3 = Some maxHeight \<and>
              dimensions_result quiet_world = Inr pageHeight \<and> pageHeight \<le> maxHeight)"
    by simp
  have ok1: "fst (capture quiet_world ?c1 ''out'' initial_state) = Inr ()" by code_simp
  have ok2: "fst (capture quiet_world ?c2 ''out'' initial_state) = Inr ()" by code_simp
  have ok3: "fst (capture quiet_world ?c3 ''out'' initial_state) = Inr ()" by code_simp
  show ?thesis
    using single_capture_below_threshold [OF h1 ok1] single_capture_below_threshold [OF h2 ok2]
      single_capture_below_threshold [OF h3 ok3]
    by (simp add: name path)
qed

section \<open>The screenshot fields of the result and the file count\<close>

































lemma io_then_return: "io_then m (io_return ()) = m"
  by (rule ext) (auto simp: io_then_def io_bind_def io_return_def split: prod.splits sum.splits)










text \<open>A whole run: three jobs, all passing, five screenshot files, exit code 0.\<close>

lemma main_example:
  "map_sum id (\<lambda>s. (checked s, passed s, failed s, totalScreenshotFiles s, exit_code s))
     (main (Some example_yaml) ''out'' (\<lambda>n. quiet_world)) = Inr (3, 3, 0, 5, 0)"
  by code_simp

end
